theory Spec2Isabelle
  imports Main
begin

section \<open>JavaScript strings and optional values\<close>

text \<open>
  The source is TypeScript. A value that may be \<open>undefined\<close> or \<open>null\<close> is an
  \<open>option\<close>; a string is a \<open>string\<close>, its characters being the code units below 256.
  The string operations the handlers use are written out here: \<open>startsWith\<close>, \<open>split\<close>
  with a one-character separator, indexing into the resulting array (an out of range read
  gives \<open>undefined\<close>), \<open>trim\<close> (the white space among these code units is TAB, LF, VT,
  FF, CR, space and the no-break space), and \<open>a || b\<close> on an optional string (the empty
  string and \<open>undefined\<close> are both falsy).
\<close>

definition startsWith :: "string \<Rightarrow> string \<Rightarrow> bool" where
  "startsWith s p = (take (length p) s = p)"

fun js_split :: "char \<Rightarrow> string \<Rightarrow> string list" where
  "js_split c [] = [[]]"
| "js_split c (x # xs) =
     (if x = c then [] # js_split c xs
      else (case js_split c xs of [] \<Rightarrow> [[x]] | w # ws \<Rightarrow> (x # w) # ws))"

definition at :: "'a list \<Rightarrow> nat \<Rightarrow> 'a option" where
  "at xs i = (if i < length xs then Some (xs ! i) else None)"

definition is_space :: "char \<Rightarrow> bool" where
  "is_space c =
     (c \<in> set [CHR 0x09, CHR 0x0A, CHR 0x0B, CHR 0x0C, CHR 0x0D, CHR '' '', CHR 0xA0])"

definition trim :: "string \<Rightarrow> string" where
  "trim s = rev (dropWhile is_space (rev (dropWhile is_space s)))"

definition truthy :: "string option \<Rightarrow> bool" where
  "truthy a = (case a of None \<Rightarrow> False | Some s \<Rightarrow> s \<noteq> [])"

definition or_str :: "string option \<Rightarrow> string \<Rightarrow> string" where
  "or_str a b = (case a of None \<Rightarrow> b | Some s \<Rightarrow> if s = [] then b else s)"

section \<open>Data model (types.ts)\<close>

datatype MediaType = Image | Video | Text

text \<open>The browser's \<open>File\<close>: the three attributes the handlers read.\<close>

record File =
  fname :: string
  fsize :: nat
  ftype :: string

record MediaFile =
  mfile :: "File option"
  previewUrl :: "string option"
  mtype :: MediaType
  base64Data :: "string option"
  mimeType :: "string option"
  textContent :: "string option"

text \<open>
  \<open>DirectorResponse\<close> declares \<open>analysis\<close> and \<open>prompt\<close> as required strings and
  \<open>title\<close> as optional. The gateway obtains the value by \<open>JSON.parse(...) as
  DirectorResponse\<close>; the cast checks nothing at run time, so in the object the program
  really holds each of the three fields may be missing. The record is that run-time object.
\<close>

record DirectorResponse =
  title :: "string option"
  analysis :: "string option"
  prompt :: "string option"

record Seo =
  titles :: "string list option"
  bestTitle :: "string option"
  seo_keywords :: "string option"


record MarketEvent =
  ev_name :: string
  ev_keywords :: "string list"

record MarketInsight =
  trendingThemes :: "(string \<times> string) list option"
  upcomingEvents :: "MarketEvent list option"
  hotKeywords :: "string list option"
  commercialAdvice :: "string option"

record GenerationState =
  isLoading :: bool
  result :: "DirectorResponse option"
  error :: "string option"

record SavedStyle =
  style_id :: string
  name :: string
  style_analysis :: "string option"
  thumbnailUrl :: "string option"

section \<open>AI gateway (services/geminiService.ts)\<close>

text \<open>
  A thrown JavaScript value, read through its \<open>message\<close> property (which may be missing).
\<close>

record js_error =
  message :: "string option"

text \<open>
  What \<open>ai.models.generateContent\<close> does is the environment's choice: it throws, or it
  returns a response whose \<open>text\<close> is falsy (\<open>undefined\<close> or empty, \<open>NoText\<close>), a string
  that \<open>JSON.parse\<close> rejects with a \<open>SyntaxError\<close> carrying the engine's message
  (\<open>Malformed\<close>), or a string that \<open>JSON.parse\<close> accepts, yielding an object (\<open>Parsed\<close>).
\<close>

datatype 'a body = NoText | Malformed string | Parsed 'a

datatype 'a reply = Threw js_error | Responded "'a body"

text \<open>\<open>JSON.parse(response.text || "{}") as T\<close>; the first argument is \<open>{}\<close> seen at type \<open>T\<close>.\<close>

definition parse_text :: "'a \<Rightarrow> 'a body \<Rightarrow> js_error + 'a" where
  "parse_text obj b =
     (case b of
        NoText \<Rightarrow> Inr obj
      | Malformed m \<Rightarrow> Inl \<lparr>message = Some m\<rparr>
      | Parsed v \<Rightarrow> Inr v)"

definition empty_director :: DirectorResponse where
  "empty_director = \<lparr>title = None, analysis = None, prompt = None\<rparr>"

definition empty_insight :: MarketInsight where
  "empty_insight = \<lparr>trendingThemes = None, upcomingEvents = None, hotKeywords = None,
     commercialAdvice = None\<rparr>"

text \<open>The body of every recipe's \<open>try\<close> block: the call, then the parse.\<close>

definition call_and_parse :: "'a \<Rightarrow> 'a reply \<Rightarrow> js_error + 'a" where
  "call_and_parse obj rp =
     (case rp of Threw e \<Rightarrow> Inl e | Responded b \<Rightarrow> parse_text obj b)"

text \<open>
  \<open>getMarketInsights\<close> catches whatever its \<open>try\<close> block throws and throws
  \<open>new Error(error.message || "Market Insights fetch failed.")\<close>;
  \<open>generateStockSenseiAnalysis\<close> does the same with its own message.
\<close>

definition getMarketInsights :: "MarketInsight reply \<Rightarrow> js_error + MarketInsight" where
  "getMarketInsights rp =
     (case call_and_parse empty_insight rp of
        Inl e \<Rightarrow> Inl \<lparr>message = Some (or_str (message e) ''Market Insights fetch failed.'')\<rparr>
      | Inr v \<Rightarrow> Inr v)"


text \<open>The five director recipes end in \<open>catch (e) { throw e; }\<close>: the error passes through.\<close>

definition generateReversePrompt ::
  "MediaFile \<Rightarrow> DirectorResponse reply \<Rightarrow> js_error + DirectorResponse" where
  "generateReversePrompt m rp =
     (case call_and_parse empty_director rp of Inl e \<Rightarrow> Inl e | Inr v \<Rightarrow> Inr v)"

definition refinePromptWithFeedback ::
  "MediaFile \<Rightarrow> DirectorResponse \<Rightarrow> string \<Rightarrow> MediaFile option \<Rightarrow> MediaFile option \<Rightarrow>
   DirectorResponse reply \<Rightarrow> js_error + DirectorResponse" where
  "refinePromptWithFeedback m previousResult feedback badMedia additionalMedia rp =
     (case call_and_parse empty_director rp of Inl e \<Rightarrow> Inl e | Inr v \<Rightarrow> Inr v)"

definition generateVideoPromptFromImage ::
  "MediaFile \<Rightarrow> MediaFile \<Rightarrow> DirectorResponse reply \<Rightarrow> js_error + DirectorResponse" where
  "generateVideoPromptFromImage m generated rp =
     (case call_and_parse empty_director rp of Inl e \<Rightarrow> Inl e | Inr v \<Rightarrow> Inr v)"

definition refineVideoPromptWithFeedback ::
  "MediaFile \<Rightarrow> MediaFile \<Rightarrow> DirectorResponse \<Rightarrow> string \<Rightarrow> MediaFile option \<Rightarrow>
   DirectorResponse reply \<Rightarrow> js_error + DirectorResponse" where
  "refineVideoPromptWithFeedback m generated previousResult feedback badVideo rp =
     (case call_and_parse empty_director rp of Inl e \<Rightarrow> Inl e | Inr v \<Rightarrow> Inr v)"

definition generateWallpaperFusion ::
  "MediaFile + string \<Rightarrow> MediaFile option \<Rightarrow> string \<Rightarrow>
   DirectorResponse reply \<Rightarrow> js_error + DirectorResponse" where
  "generateWallpaperFusion styleSource subjectImage customText rp =
     (case call_and_parse empty_director rp of Inl e \<Rightarrow> Inl e | Inr v \<Rightarrow> Inr v)"

text \<open>
  \<open>fileToGenerativePart\<close>: the \<open>FileReader\<close> either fails (the promise is rejected with the
  reader's event, which has no message) or yields a data URL, of which the part after the
  first comma is kept.
\<close>

definition fileToGenerativePart ::
  "File \<Rightarrow> string option \<Rightarrow> js_error + (string \<times> string option)" where
  "fileToGenerativePart f rd =
     (case rd of
        None \<Rightarrow> Inl \<lparr>message = None\<rparr>
      | Some dataUrl \<Rightarrow> Inr (ftype f, at (js_split CHR '','' dataUrl) 1))"

section \<open>Effects of a handler\<close>

text \<open>
  What a handler shows the user or sends out. The alert messages are named after what they
  say; each is one \<open>alert\<close> call of the source. A gateway call is recorded with the
  recipe and the arguments the handler passes; \<open>ConsoleError\<close> is a \<open>console.error\<close>.
\<close>

datatype notice =
    FileTooLarge
  | InvalidMediaType
  | ProcessFailed
  | LoadMediaFailed
  | RefineNeedsInput
  | RefinementFailed
  | AnalysisFailed
  | StorageFull
  | StorageFullAdvice
  | ImportFailed "string option"
  | StyleSaved string
  | ThumbnailFailed

datatype gateway_call =
    CallReversePrompt MediaFile
  | CallRefinePrompt MediaFile DirectorResponse string "MediaFile option" "MediaFile option"
  | CallVideoPrompt MediaFile MediaFile
  | CallRefineVideoPrompt MediaFile MediaFile DirectorResponse string "MediaFile option"
  | CallMarketInsights

datatype effect = Alert notice | Dispatch gateway_call | ConsoleError

section \<open>Media ingestion (components/FileUpload.tsx)\<close>

text \<open>
  \<open>handleFileChange file\<close>, with the URL \<open>URL.createObjectURL\<close> hands out and the outcome of
  the file read. The result is the effects and the descriptor passed to \<open>onFileSelect\<close>, if
  it is called.
\<close>

definition handleFileChange ::
  "File option \<Rightarrow> string \<Rightarrow> string option \<Rightarrow> effect list \<times> MediaFile option" where
  "handleFileChange fo url rd =
     (case fo of
        None \<Rightarrow> ([], None)
      | Some f \<Rightarrow>
          if fsize f > 20 * 1024 * 1024 then ([Alert FileTooLarge], None)
          else
            let isVideo = startsWith (ftype f) ''video/'';
                isImage = startsWith (ftype f) ''image/''
            in if \<not> isVideo \<and> \<not> isImage then ([Alert InvalidMediaType], None)
               else (case fileToGenerativePart f rd of
                       Inl e \<Rightarrow> ([ConsoleError, Alert ProcessFailed], None)
                     | Inr (mt, d) \<Rightarrow>
                         ([], Some \<lparr>mfile = Some f, previewUrl = Some url,
                                    mtype = (if isVideo then Video else Image),
                                    base64Data = d, mimeType = Some mt,
                                    textContent = None\<rparr>)))"

section \<open>Style library (components/WallpaperGenerator.tsx)\<close>

text \<open>
  The component's state, together with what \<open>localStorage\<close> holds under the key
  \<open>wallpaper_styles\<close> (the collection last written, \<open>None\<close> before any write).
\<close>

record Wallpaper =
  styleImage :: "MediaFile option"
  subjectImage :: "MediaFile option"
  customText :: string
  savedStyles :: "SavedStyle list"
  activeSavedStyle :: "SavedStyle option"
  wp_generation :: GenerationState
  stored :: "SavedStyle list option"

text \<open>
  \<open>createPersistentThumbnail src\<close> never rejects: when the image loads, the canvas gives a
  data URL; when it does not, the failure is logged and the source URL itself is returned.
\<close>

definition createPersistentThumbnail ::
  "string option \<Rightarrow> string option \<Rightarrow> string option \<times> effect list" where
  "createPersistentThumbnail src canvas =
     (case canvas of Some u \<Rightarrow> (Some u, []) | None \<Rightarrow> (src, [ConsoleError]))"

text \<open>
  What the environment decides during one import or save: the object URL, the outcome of
  the file read, the backend's reply, the canvas output, \<open>Date.now().toString()\<close>,
  \<open>new Date().toLocaleTimeString()\<close>, and whether \<open>localStorage.setItem\<close> succeeds
  (it throws when the quota is exceeded).
\<close>

record style_env =
  env_url :: string
  env_read :: "string option"
  env_reply :: "DirectorResponse reply"
  env_canvas :: "string option"
  env_now :: string
  env_time :: string
  env_write_ok :: bool

definition done_loading :: "Wallpaper \<Rightarrow> Wallpaper" where
  "done_loading s = s\<lparr>wp_generation := (wp_generation s)\<lparr>isLoading := False\<rparr>\<rparr>"

definition handleImportStyle ::
  "File option \<Rightarrow> style_env \<Rightarrow> Wallpaper \<Rightarrow> Wallpaper \<times> effect list" where
  "handleImportStyle fo env s =
     (case fo of
        None \<Rightarrow> (s, [])
      | Some f \<Rightarrow>
          let s1 = s\<lparr>wp_generation := (wp_generation s)\<lparr>isLoading := True, error := None\<rparr>\<rparr>
          in (case fileToGenerativePart f (env_read env) of
               Inl e \<Rightarrow> (done_loading s1, [ConsoleError, Alert (ImportFailed (message e))])
             | Inr (mt, d) \<Rightarrow>
                 let mediaFile = \<lparr>mfile = Some f, previewUrl = Some (env_url env),
                                   mtype = Image, base64Data = d, mimeType = Some mt,
                                   textContent = None\<rparr>
                 in (case generateReversePrompt mediaFile (env_reply env) of
                      Inl e \<Rightarrow>
                        (done_loading s1,
                         [Dispatch (CallReversePrompt mediaFile), ConsoleError,
                          Alert (ImportFailed (message e))])
                    | Inr analysisResult \<Rightarrow>
                        let made = createPersistentThumbnail (previewUrl mediaFile)
                                     (env_canvas env);
                            autoName = or_str (title analysisResult)
                                         (or_str (at (js_split CHR ''.'' (fname f)) 0)
                                            ''New Style'');
                            newStyle = \<lparr>style_id = env_now env, name = autoName,
                                          style_analysis = analysis analysisResult,
                                          thumbnailUrl = fst made\<rparr>;
                            updatedStyles = newStyle # savedStyles s
                        in if env_write_ok env
                           then (done_loading
                                   (s1\<lparr>stored := Some updatedStyles,
                                       savedStyles := updatedStyles\<rparr>),
                                 Dispatch (CallReversePrompt mediaFile) # snd made)
                           else (done_loading s1,
                                 Dispatch (CallReversePrompt mediaFile) # snd made
                                 @ [Alert StorageFull]))))"

text \<open>
  \<open>handleSaveStyle\<close>. Nothing in its outer \<open>try\<close> block throws (the thumbnail promise
  never rejects), so the outer \<open>catch\<close> has no path here.
\<close>

definition handleSaveStyle :: "style_env \<Rightarrow> Wallpaper \<Rightarrow> Wallpaper \<times> effect list" where
  "handleSaveStyle env s =
     (case result (wp_generation s) of
        None \<Rightarrow> (s, [])
      | Some r \<Rightarrow>
          if styleImage s = None \<and> activeSavedStyle s = None then (s, [])
          else
            let nm = or_str (title r) (''Style '' @ env_time env);
                made = (case styleImage s of
                          Some si \<Rightarrow> createPersistentThumbnail (previewUrl si) (env_canvas env)
                        | None \<Rightarrow>
                            (case activeSavedStyle s of
                               Some a \<Rightarrow> (thumbnailUrl a, [])
                             | None \<Rightarrow> (Some [], [])));
                newStyle = \<lparr>style_id = env_now env, name = nm,
                              style_analysis = analysis r, thumbnailUrl = fst made\<rparr>;
                updatedStyles = newStyle # savedStyles s
            in if env_write_ok env
               then (s\<lparr>stored := Some updatedStyles, savedStyles := updatedStyles\<rparr>,
                     snd made @ [Alert (StyleSaved nm)])
               else (s, snd made @ [Alert StorageFullAdvice]))"

section \<open>Market insight fetcher (components/StockSensei.tsx)\<close>

record StockSensei =
  insights :: "MarketInsight option"
  isInsightLoading :: bool
  selectedEvent :: "MarketEvent option"
  seo_error :: "string option"

text \<open>
  \<open>fetchInsights\<close>. After \<open>setInsights(data)\<close> the handler reads
  \<open>data.upcomingEvents.length\<close>; on an object without that field the read throws, inside
  the same \<open>try\<close>, and the \<open>catch\<close> only logs.
\<close>

definition fetchInsights :: "MarketInsight reply \<Rightarrow> StockSensei \<Rightarrow> StockSensei \<times> effect list" where
  "fetchInsights rp s =
     (case getMarketInsights rp of
        Inl e \<Rightarrow> (s\<lparr>isInsightLoading := False\<rparr>, [Dispatch CallMarketInsights, ConsoleError])
      | Inr data \<Rightarrow>
          let s1 = s\<lparr>insights := Some data\<rparr>
          in (case upcomingEvents data of
               None \<Rightarrow> (s1\<lparr>isInsightLoading := False\<rparr>, [Dispatch CallMarketInsights, ConsoleError])
             | Some [] \<Rightarrow> (s1\<lparr>isInsightLoading := False\<rparr>, [Dispatch CallMarketInsights])
             | Some (ev # evs) \<Rightarrow>
                 (s1\<lparr>selectedEvent := Some ev, isInsightLoading := False\<rparr>,
                  [Dispatch CallMarketInsights])))"

section \<open>Director workflow (App.tsx and components/ResultDisplay.tsx)\<close>

subsection \<open>The result display's own state and handlers\<close>

datatype Phase = ImagePrompt | VideoPrompt

datatype Tab = TabNone | TabRefine | TabImageToVideo

text \<open>
  The \<open>useState\<close> cells of \<open>ResultDisplay\<close> that the workflow reads; \<open>initialDisplay\<close>
  holds the initial values the component starts from whenever it is mounted.
\<close>

record ResultDisplay =
  phase :: Phase
  activeTab :: Tab
  feedbackText :: string
  isRefining :: bool
  generatedImage :: "MediaFile option"
  badResultImage :: "MediaFile option"
  badResultVideo :: "MediaFile option"

definition initialDisplay :: ResultDisplay where
  "initialDisplay = \<lparr>phase = ImagePrompt, activeTab = TabNone, feedbackText = [],
     isRefining = False, generatedImage = None, badResultImage = None,
     badResultVideo = None\<rparr>"

text \<open>
  \<open>handleMediaUpload file setter forcedType\<close>: the value handed to the setter, if any.
  A missing file makes the read throw, which the handler's \<open>catch\<close> reports like a failed
  read.
\<close>

definition handleMediaUpload ::
  "File option \<Rightarrow> string \<Rightarrow> string option \<Rightarrow> MediaType option \<Rightarrow>
   effect list \<times> MediaFile option" where
  "handleMediaUpload fo url rd forcedType =
     (case fo of
        None \<Rightarrow> ([Alert LoadMediaFailed], None)
      | Some f \<Rightarrow>
          (case fileToGenerativePart f rd of
             Inl e \<Rightarrow> ([Alert LoadMediaFailed], None)
           | Inr (mt, d) \<Rightarrow>
               ([], Some \<lparr>mfile = Some f, previewUrl = Some url,
                          mtype = (case forcedType of
                                     Some t \<Rightarrow> t
                                   | None \<Rightarrow>
                                       if startsWith (ftype f) ''video/'' then Video
                                       else Image),
                          base64Data = d, mimeType = Some mt, textContent = None\<rparr>)))"

text \<open>
  A handler of \<open>ResultDisplay\<close> is a function of the component's props (\<open>media\<close>,
  \<open>additionalMedia\<close>, \<open>state\<close>), its own state and the backend's reply. It returns the
  new own state, the argument of \<open>onUpdateResult\<close> when that callback is called, and the
  effects. The handler runs to its end as one step.
\<close>

definition hasBadMedia :: "ResultDisplay \<Rightarrow> bool" where
  "hasBadMedia d =
     (if phase d = ImagePrompt then badResultImage d \<noteq> None else badResultVideo d \<noteq> None)"

definition handleRefineSubmit ::
  "MediaFile \<Rightarrow> MediaFile option \<Rightarrow> GenerationState \<Rightarrow> ResultDisplay \<Rightarrow>
   DirectorResponse reply \<Rightarrow> ResultDisplay \<times> DirectorResponse option \<times> effect list" where
  "handleRefineSubmit m additionalMedia st d rp =
     (case result st of
        None \<Rightarrow> (d, None, [])
      | Some prev \<Rightarrow>
          if trim (feedbackText d) = [] \<and> \<not> hasBadMedia d
          then (d, None, [Alert RefineNeedsInput])
          else if phase d = ImagePrompt
          then (case refinePromptWithFeedback m prev (feedbackText d) (badResultImage d)
                       additionalMedia rp of
                  Inl e \<Rightarrow>
                    (d\<lparr>isRefining := False\<rparr>, None,
                     [Dispatch (CallRefinePrompt m prev (feedbackText d) (badResultImage d)
                                  additionalMedia),
                      ConsoleError, Alert RefinementFailed])
                | Inr newResponse \<Rightarrow>
                    (d\<lparr>feedbackText := [], badResultImage := None, badResultVideo := None,
                       activeTab := TabNone, isRefining := False\<rparr>,
                     Some newResponse,
                     [Dispatch (CallRefinePrompt m prev (feedbackText d) (badResultImage d)
                                  additionalMedia)]))
          else (case generatedImage d of
                  None \<Rightarrow>
                    (d\<lparr>isRefining := False\<rparr>, None, [ConsoleError, Alert RefinementFailed])
                | Some g \<Rightarrow>
                    (case refineVideoPromptWithFeedback m g prev (feedbackText d)
                            (badResultVideo d) rp of
                       Inl e \<Rightarrow>
                         (d\<lparr>isRefining := False\<rparr>, None,
                          [Dispatch (CallRefineVideoPrompt m g prev (feedbackText d)
                                       (badResultVideo d)),
                           ConsoleError, Alert RefinementFailed])
                     | Inr newResponse \<Rightarrow>
                         (d\<lparr>feedbackText := [], badResultImage := None,
                            badResultVideo := None, activeTab := TabNone,
                            isRefining := False\<rparr>,
                          Some newResponse,
                          [Dispatch (CallRefineVideoPrompt m g prev (feedbackText d)
                                       (badResultVideo d))]))))"

definition handleVideoPromptSubmit ::
  "MediaFile \<Rightarrow> ResultDisplay \<Rightarrow> DirectorResponse reply \<Rightarrow>
   ResultDisplay \<times> DirectorResponse option \<times> effect list" where
  "handleVideoPromptSubmit m d rp =
     (case generatedImage d of
        None \<Rightarrow> (d, None, [])
      | Some g \<Rightarrow>
          (case generateVideoPromptFromImage m g rp of
             Inl e \<Rightarrow>
               (d\<lparr>isRefining := False\<rparr>, None, [Dispatch (CallVideoPrompt m g), Alert AnalysisFailed])
           | Inr newResponse \<Rightarrow>
               (d\<lparr>phase := VideoPrompt, activeTab := TabNone, isRefining := False\<rparr>,
                Some newResponse, [Dispatch (CallVideoPrompt m g)])))"

subsection \<open>The application's state and handlers\<close>

datatype AppMode = Director | Stocksensei

text \<open>
  \<open>App\<close> holds \<open>appMode\<close>, \<open>media\<close> and \<open>generationState\<close>. It renders \<open>ResultDisplay\<close>
  only while \<open>appMode\<close> is \<open>director\<close> and \<open>media\<close> is present; \<open>display\<close> is the state of
  that component, which is back at \<open>initialDisplay\<close> whenever the component is not
  rendered, since the next mount starts from the initial values.
\<close>

record App =
  appMode :: AppMode
  media :: "MediaFile option"
  generationState :: GenerationState
  display :: ResultDisplay

definition idle :: GenerationState where
  "idle = \<lparr>isLoading = False, result = None, error = None\<rparr>"

definition initialApp :: App where
  "initialApp = \<lparr>appMode = Director, media = None, generationState = idle,
     display = initialDisplay\<rparr>"

definition handleFileSelect :: "MediaFile \<Rightarrow> App \<Rightarrow> App" where
  "handleFileSelect selectedMedia s = s\<lparr>media := Some selectedMedia, generationState := idle\<rparr>"

definition handleReset :: "App \<Rightarrow> App" where
  "handleReset s = s\<lparr>media := None, generationState := idle\<rparr>"

definition handleGenerate :: "DirectorResponse reply \<Rightarrow> App \<Rightarrow> App \<times> effect list" where
  "handleGenerate rp s =
     (case media s of
        None \<Rightarrow> (s, [])
      | Some m \<Rightarrow>
          (case generateReversePrompt m rp of
             Inr response \<Rightarrow>
               (s\<lparr>generationState :=
                    \<lparr>isLoading = False, result = Some response, error = None\<rparr>\<rparr>,
                [Dispatch (CallReversePrompt m)])
           | Inl err \<Rightarrow>
               (s\<lparr>generationState :=
                    \<lparr>isLoading = False, result = None,
                     error = Some (or_str (message err)
                                     ''Something went wrong during generation.'')\<rparr>\<rparr>,
                [Dispatch (CallReversePrompt m)])))"

definition handleUpdateResult :: "DirectorResponse \<Rightarrow> App \<Rightarrow> App" where
  "handleUpdateResult newResult s =
     s\<lparr>generationState := (generationState s)\<lparr>result := Some newResult, isLoading := False\<rparr>\<rparr>"

subsection \<open>User events and what the rendered page lets the user do\<close>

text \<open>
  One event is one user action together with what the environment answers (the file read,
  the backend's reply); the handler it starts runs to its end before the next event.
  \<open>TypeFeedback\<close> stands for any change of the feedback text, typed or dictated. An
  event can happen only when the control that starts it is rendered and not disabled:
  \<open>enabled\<close> is that condition, read off the JSX. \<open>SetAppMode\<close> to another mode and
  \<open>ClickReset\<close> take \<open>ResultDisplay\<close> off the page, so its state is the initial one
  afterwards. Entering the \<open>stocksensei\<close> mode mounts \<open>StockSensei\<close>, whose effect
  starts \<open>fetchInsights\<close>; what that does to the component's own state is
  \<open>fetchInsights\<close> above.
\<close>

datatype event =
    SetAppMode AppMode
  | FileSelect "File option" string "string option"
  | ClickReset
  | ClickGenerate "DirectorResponse reply"
  | ClickRetry "DirectorResponse reply"
  | ToggleRefineTab
  | ToggleImageToVideoTab
  | TypeFeedback string
  | UploadBadResultImage "File option" string "string option"
  | ClearBadResultImage
  | UploadBadResultVideo "File option" string "string option"
  | ClearBadResultVideo
  | UploadGeneratedImage "File option" string "string option"
  | ClearGeneratedImage
  | ClickRefineSubmit "DirectorResponse reply"
  | ClickVideoPromptSubmit "DirectorResponse reply"

definition mounted :: "App \<Rightarrow> bool" where
  "mounted s = (appMode s = Director \<and> media s \<noteq> None)"

text \<open>
  The block of feedback and workflow actions is rendered under
  \<open>state.result && !state.isLoading && !isRefining\<close>.
\<close>

definition panel :: "App \<Rightarrow> bool" where
  "panel s = (mounted s \<and> result (generationState s) \<noteq> None
     \<and> \<not> isLoading (generationState s) \<and> \<not> isRefining (display s))"

text \<open>The \<open>disabled\<close> attribute of the refine button.\<close>

definition refine_disabled :: "ResultDisplay \<Rightarrow> bool" where
  "refine_disabled d =
     (trim (feedbackText d) = [] \<and> badResultImage d = None \<and> badResultVideo d = None)"

fun enabled :: "App \<Rightarrow> event \<Rightarrow> bool" where
  "enabled s (SetAppMode m) = True"
| "enabled s (FileSelect fo url rd) =
     (appMode s = Director \<and> media s = None \<and> \<not> isLoading (generationState s))"
| "enabled s ClickReset = mounted s"
| "enabled s (ClickGenerate rp) =
     (mounted s \<and> result (generationState s) = None \<and> \<not> isLoading (generationState s))"
| "enabled s (ClickRetry rp) = (mounted s \<and> error (generationState s) \<noteq> None)"
| "enabled s ToggleRefineTab = panel s"
| "enabled s ToggleImageToVideoTab = (panel s \<and> phase (display s) = ImagePrompt)"
| "enabled s (TypeFeedback t) = (panel s \<and> activeTab (display s) = TabRefine)"
| "enabled s (UploadBadResultImage fo url rd) =
     (panel s \<and> activeTab (display s) = TabRefine \<and> phase (display s) = ImagePrompt
      \<and> badResultImage (display s) = None)"
| "enabled s ClearBadResultImage =
     (panel s \<and> activeTab (display s) = TabRefine \<and> phase (display s) = ImagePrompt
      \<and> badResultImage (display s) \<noteq> None)"
| "enabled s (UploadBadResultVideo fo url rd) =
     (panel s \<and> activeTab (display s) = TabRefine \<and> phase (display s) = VideoPrompt
      \<and> badResultVideo (display s) = None)"
| "enabled s ClearBadResultVideo =
     (panel s \<and> activeTab (display s) = TabRefine \<and> phase (display s) = VideoPrompt
      \<and> badResultVideo (display s) \<noteq> None)"
| "enabled s (UploadGeneratedImage fo url rd) =
     (panel s \<and> activeTab (display s) = TabImageToVideo \<and> generatedImage (display s) = None)"
| "enabled s ClearGeneratedImage =
     (panel s \<and> activeTab (display s) = TabImageToVideo \<and> generatedImage (display s) \<noteq> None)"
| "enabled s (ClickRefineSubmit rp) =
     (panel s \<and> activeTab (display s) = TabRefine \<and> \<not> refine_disabled (display s))"
| "enabled s (ClickVideoPromptSubmit rp) =
     (panel s \<and> activeTab (display s) = TabImageToVideo \<and> generatedImage (display s) \<noteq> None)"

text \<open>
  A handler of the display, run inside the application: \<open>onUpdateResult\<close> is
  \<open>handleUpdateResult\<close>, and \<open>additionalMedia\<close> is not passed by \<open>App\<close>.
\<close>

definition in_app ::
  "ResultDisplay \<times> DirectorResponse option \<times> effect list \<Rightarrow> App \<Rightarrow> App \<times> effect list" where
  "in_app out s =
     (case out of
        (d', upd, effs) \<Rightarrow>
          ((case upd of None \<Rightarrow> s | Some r \<Rightarrow> handleUpdateResult r s)\<lparr>display := d'\<rparr>, effs))"

definition set_display :: "(ResultDisplay \<Rightarrow> ResultDisplay) \<Rightarrow> App \<Rightarrow> App" where
  "set_display f s = s\<lparr>display := f (display s)\<rparr>"

fun fire :: "event \<Rightarrow> App \<Rightarrow> App \<times> effect list" where
  "fire (SetAppMode m) s =
     (s\<lparr>appMode := m, display := (if m = appMode s then display s else initialDisplay)\<rparr>,
      (if m = Stocksensei \<and> appMode s \<noteq> Stocksensei then [Dispatch CallMarketInsights]
       else []))"
| "fire (FileSelect fo url rd) s =
     (case handleFileChange fo url rd of
        (effs, None) \<Rightarrow> (s, effs)
      | (effs, Some selectedMedia) \<Rightarrow> (handleFileSelect selectedMedia s, effs))"
| "fire ClickReset s = ((handleReset s)\<lparr>display := initialDisplay\<rparr>, [])"
| "fire (ClickGenerate rp) s = handleGenerate rp s"
| "fire (ClickRetry rp) s = handleGenerate rp s"
| "fire ToggleRefineTab s =
     (set_display (\<lambda>d. d\<lparr>activeTab := (if activeTab d = TabRefine then TabNone
                                          else TabRefine)\<rparr>) s, [])"
| "fire ToggleImageToVideoTab s =
     (set_display (\<lambda>d. d\<lparr>activeTab := (if activeTab d = TabImageToVideo then TabNone
                                          else TabImageToVideo)\<rparr>) s, [])"
| "fire (TypeFeedback t) s = (set_display (\<lambda>d. d\<lparr>feedbackText := t\<rparr>) s, [])"
| "fire (UploadBadResultImage fo url rd) s =
     (case handleMediaUpload fo url rd (Some Image) of
        (effs, None) \<Rightarrow> (s, effs)
      | (effs, Some mf) \<Rightarrow> (set_display (\<lambda>d. d\<lparr>badResultImage := Some mf\<rparr>) s, effs))"
| "fire ClearBadResultImage s = (set_display (\<lambda>d. d\<lparr>badResultImage := None\<rparr>) s, [])"
| "fire (UploadBadResultVideo fo url rd) s =
     (case handleMediaUpload fo url rd (Some Video) of
        (effs, None) \<Rightarrow> (s, effs)
      | (effs, Some mf) \<Rightarrow> (set_display (\<lambda>d. d\<lparr>badResultVideo := Some mf\<rparr>) s, effs))"
| "fire ClearBadResultVideo s = (set_display (\<lambda>d. d\<lparr>badResultVideo := None\<rparr>) s, [])"
| "fire (UploadGeneratedImage fo url rd) s =
     (case handleMediaUpload fo url rd (Some Image) of
        (effs, None) \<Rightarrow> (s, effs)
      | (effs, Some mf) \<Rightarrow> (set_display (\<lambda>d. d\<lparr>generatedImage := Some mf\<rparr>) s, effs))"
| "fire ClearGeneratedImage s = (set_display (\<lambda>d. d\<lparr>generatedImage := None\<rparr>) s, [])"
| "fire (ClickRefineSubmit rp) s =
     (case media s of
        None \<Rightarrow> (s, [])
      | Some m \<Rightarrow> in_app (handleRefineSubmit m None (generationState s) (display s) rp) s)"
| "fire (ClickVideoPromptSubmit rp) s =
     (case media s of
        None \<Rightarrow> (s, [])
      | Some m \<Rightarrow> in_app (handleVideoPromptSubmit m (display s) rp) s)"

definition step :: "App \<Rightarrow> event \<Rightarrow> App" where
  "step s e = (if enabled s e then fst (fire e s) else s)"

definition run :: "event list \<Rightarrow> App" where
  "run es = foldl step initialApp es"

inductive reachable :: "App \<Rightarrow> bool" where
  start: "reachable initialApp"
| after: "reachable s \<Longrightarrow> enabled s e \<Longrightarrow> reachable (fst (fire e s))"

subsection \<open>Generation calls that overlap\<close>

text \<open>
  \<open>handleGenerate\<close> awaits the gateway. What it does before the \<open>await\<close>
  (\<open>generate_begin\<close>: the guard on \<open>media\<close>, the loading flag, the dispatch) and what it
  does when the call settles (\<open>generate_settle\<close>: the \<open>try\<close> continuation or the
  \<open>catch\<close>, each writing a whole new state) are two steps, and the page stays live in
  between: the reset control of \<open>ResultDisplay\<close> is rendered whatever the loading flag
  says, and \<open>handleReset\<close> puts the flag back to false, which enables the upload
  again. In \<open>live_step\<close> a generation is begun from the generate button or the retry
  link and is settled by a later event; the list holds the media of the calls not yet
  settled. All other events are the single steps of \<open>step\<close>.
\<close>

definition generate_begin :: "App \<Rightarrow> App \<times> effect list" where
  "generate_begin s =
     (case media s of
        None \<Rightarrow> (s, [])
      | Some m \<Rightarrow>
          (s\<lparr>generationState := (generationState s)\<lparr>isLoading := True, error := None\<rparr>\<rparr>,
           [Dispatch (CallReversePrompt m)]))"

definition generate_settle :: "MediaFile \<Rightarrow> DirectorResponse reply \<Rightarrow> App \<Rightarrow> App" where
  "generate_settle m rp s =
     (case generateReversePrompt m rp of
        Inr response \<Rightarrow>
          s\<lparr>generationState := \<lparr>isLoading = False, result = Some response, error = None\<rparr>\<rparr>
      | Inl err \<Rightarrow>
          s\<lparr>generationState :=
              \<lparr>isLoading = False, result = None,
               error = Some (or_str (message err)
                               ''Something went wrong during generation.'')\<rparr>\<rparr>)"

datatype live_event = Act event | BeginGenerate | Settle nat "DirectorResponse reply"

fun live_step :: "App \<times> MediaFile list \<Rightarrow> live_event \<Rightarrow> App \<times> MediaFile list" where
  "live_step (s, out) (Act e) = (step s e, out)"
| "live_step (s, out) BeginGenerate =
     (if mounted s
         \<and> (result (generationState s) = None \<and> \<not> isLoading (generationState s)
              \<or> error (generationState s) \<noteq> None)
      then (case media s of
              None \<Rightarrow> (s, out)
            | Some m \<Rightarrow> (fst (generate_begin s), out @ [m]))
      else (s, out))"
| "live_step (s, out) (Settle i rp) =
     (if i < length out
      then (generate_settle (out ! i) rp s, take i out @ drop (Suc i) out)
      else (s, out))"

definition live_run :: "live_event list \<Rightarrow> App \<times> MediaFile list" where
  "live_run es = foldl live_step (initialApp, []) es"

section \<open>Sample inputs\<close>

text \<open>A 2 MB JPEG, the descriptor ingestion makes of it, and two backend results.\<close>

definition photo_file :: File where
  "photo_file = \<lparr>fname = ''photo.jpg'', fsize = 2000000, ftype = ''image/jpeg''\<rparr>"

definition photo :: MediaFile where
  "photo = \<lparr>mfile = Some photo_file, previewUrl = Some ''blob:1'', mtype = Image,
     base64Data = Some ''AAAA'', mimeType = Some ''image/jpeg'', textContent = None\<rparr>"

definition still :: DirectorResponse where
  "still = \<lparr>title = None, analysis = Some ''warm light'',
     prompt = Some ''cinematic portrait''\<rparr>"

definition motion :: DirectorResponse where
  "motion = \<lparr>title = None, analysis = Some ''slow push in'',
     prompt = Some ''camera dollies forward''\<rparr>"

text \<open>The traces of the spec's scenarios A and B, and one that reaches the video phase.\<close>

definition scenario_A :: "event list" where
  "scenario_A =
     [FileSelect (Some photo_file) ''blob:1'' (Some ''data:image/jpeg;base64,AAAA''),
      ClickGenerate (Responded (Parsed still))]"

definition scenario_B :: "event list" where
  "scenario_B = scenario_A @ [ToggleRefineTab, TypeFeedback ''make it brighter'']"

definition to_video :: "event list" where
  "to_video = scenario_A @
     [ToggleImageToVideoTab,
      UploadGeneratedImage (Some photo_file) ''blob:3'' (Some ''data:image/jpeg;base64,AAAA''),
      ClickVideoPromptSubmit (Responded (Parsed motion))]"

text \<open>
  Two generations that overlap: the first is still outstanding when the user resets and
  selects the file again; the second is begun and succeeds.
\<close>

definition overlap :: "live_event list" where
  "overlap =
     [Act (FileSelect (Some photo_file) ''blob:1'' (Some ''data:image/jpeg;base64,AAAA'')),
      BeginGenerate,
      Act ClickReset,
      Act (FileSelect (Some photo_file) ''blob:4'' (Some ''data:image/jpeg;base64,AAAA'')),
      BeginGenerate,
      Settle 1 (Responded (Parsed still))]"

text \<open>An empty style library and the environment of one import (the spec's scenario D).\<close>

definition library :: Wallpaper where
  "library = \<lparr>styleImage = None, subjectImage = None, customText = [], savedStyles = [],
     activeSavedStyle = None, wp_generation = idle, stored = None\<rparr>"

definition neon_dusk :: DirectorResponse where
  "neon_dusk = \<lparr>title = Some ''Neon Dusk'', analysis = Some ''violet haze'',
     prompt = Some ''neon skyline at dusk''\<rparr>"

definition import_env :: style_env where
  "import_env = \<lparr>env_url = ''blob:2'', env_read = Some ''data:image/png;base64,BBBB'',
     env_reply = Responded (Parsed neon_dusk),
     env_canvas = Some ''data:image/jpeg;base64,CCCC'',
     env_now = ''1700000000000'', env_time = ''10:00:00'', env_write_ok = True\<rparr>"

definition spring :: MarketEvent where
  "spring = \<lparr>ev_name = ''Spring travel'', ev_keywords = [''blossom'', ''journey'']\<rparr>"

definition snapshot :: MarketInsight where
  "snapshot = \<lparr>trendingThemes = Some [], upcomingEvents = Some [spring],
     hotKeywords = Some [], commercialAdvice = Some ''shoot outdoors''\<rparr>"

section \<open>The invariant of the workflow\<close>

text \<open>
  What every reachable state satisfies: a display that is not on the page is in its
  initial state; in the video phase the confirmed image is present and the tab that could
  remove it is closed; between events no call is outstanding.
\<close>

definition inv :: "App \<Rightarrow> bool" where
  "inv s = ((\<not> mounted s \<longrightarrow> display s = initialDisplay)
     \<and> (phase (display s) = VideoPrompt \<longrightarrow>
          generatedImage (display s) \<noteq> None \<and> activeTab (display s) \<noteq> TabImageToVideo)
     \<and> \<not> isRefining (display s) \<and> \<not> isLoading (generationState s))"

section \<open>Facts about the gateway\<close>



lemma pass_through: "(case x of Inl e \<Rightarrow> Inl e | Inr v \<Rightarrow> Inr v) = x"
  by (cases x) auto

lemmas director_recipes =
  generateReversePrompt_def refinePromptWithFeedback_def generateVideoPromptFromImage_def
  refineVideoPromptWithFeedback_def generateWallpaperFusion_def

section \<open>C2: what a gateway call returns\<close>




section \<open>C3: the message of a gateway error\<close>




section \<open>C6: media ingestion\<close>

text \<open>
  C6, as stated, fails: a 2 MB JPEG whose content cannot be read passes both checks, and
  ingestion still produces no descriptor; what is reported is a processing failure, not a
  validation error.
\<close>

theorem unreadable_file_is_not_ingested:
  "handleFileChange (Some photo_file) ''blob:1'' None
     = ([ConsoleError, Alert ProcessFailed], None)"
  by (simp add: handleFileChange_def photo_file_def startsWith_def fileToGenerativePart_def)

text \<open>
  C6, amended: for a file of at most 20 MiB whose MIME type starts with \<open>image/\<close> or
  \<open>video/\<close>, ingestion produces a descriptor when the content can be read, of kind video
  for \<open>video/*\<close> and image otherwise, and reports a processing failure without a
  descriptor when it cannot. For every other file it reports a validation error (too
  large, else wrong type) and produces no descriptor. No path issues a gateway call.
\<close>

theorem ingestion_by_size_and_type:
  "(fsize f \<le> 20 * 1024 * 1024
      \<and> (startsWith (ftype f) ''image/'' \<or> startsWith (ftype f) ''video/'') \<longrightarrow>
      handleFileChange (Some f) url (Some dataUrl) =
        ([], Some \<lparr>mfile = Some f, previewUrl = Some url,
                   mtype = (if startsWith (ftype f) ''video/'' then Video else Image),
                   base64Data = at (js_split CHR '','' dataUrl) 1,
                   mimeType = Some (ftype f), textContent = None\<rparr>)
      \<and> handleFileChange (Some f) url None = ([ConsoleError, Alert ProcessFailed], None))
   \<and> (\<not> (fsize f \<le> 20 * 1024 * 1024
      \<and> (startsWith (ftype f) ''image/'' \<or> startsWith (ftype f) ''video/'')) \<longrightarrow>
      handleFileChange (Some f) url rd =
        ([Alert (if fsize f > 20 * 1024 * 1024 then FileTooLarge else InvalidMediaType)], None))
   \<and> (\<forall>c. Dispatch c \<notin> set (fst (handleFileChange fo url rd)))"
  by (auto simp: handleFileChange_def fileToGenerativePart_def Let_def
      split: option.splits sum.splits)

theorem ingestion_by_size_and_type_witness:
  "handleFileChange (Some photo_file) ''blob:1'' (Some ''data:image/jpeg;base64,AAAA'')
     = ([], Some photo)
   \<and> handleFileChange (Some (photo_file\<lparr>fsize := 25000000\<rparr>)) ''blob:1'' None
     = ([Alert FileTooLarge], None)
   \<and> handleFileChange (Some (photo_file\<lparr>ftype := ''text/plain''\<rparr>)) ''blob:1'' None
     = ([Alert InvalidMediaType], None)"
  using ingestion_by_size_and_type
      [of photo_file "''blob:1''" "''data:image/jpeg;base64,AAAA''" None None]
    ingestion_by_size_and_type
      [of "photo_file\<lparr>fsize := 25000000\<rparr>" "''blob:1''" _ None None]
    ingestion_by_size_and_type
      [of "photo_file\<lparr>ftype := ''text/plain''\<rparr>" "''blob:1''" _ None None]
  by (simp add: photo_file_def photo_def startsWith_def at_def)

section \<open>C7: the name of a saved style\<close>

lemma first_piece: "at (js_split c s) 0 = Some (takeWhile (\<lambda>x. x \<noteq> c) s)"
  by (induction s) (auto simp: at_def split: list.splits)

text \<open>
  C7, as stated, fails on both paths. An import of a file named \<open>.png\<close> whose analysis
  has no title gets the fixed name \<open>New Style\<close>, which is neither a file name stem nor a
  timestamp label. A save of a result without title, made from the uploaded \<open>photo.jpg\<close>,
  gets the timestamp label although the file has the stem \<open>photo\<close>.
\<close>

theorem fallback_names_differ_by_path:
  "map name (savedStyles (fst (handleImportStyle
       (Some \<lparr>fname = ''.png'', fsize = 1000, ftype = ''image/png''\<rparr>)
       (import_env\<lparr>env_reply := Responded (Parsed still)\<rparr>) library)))
     = [''New Style'']
   \<and> map name (savedStyles (fst (handleSaveStyle import_env
       (library\<lparr>styleImage := Some photo,
                wp_generation := \<lparr>isLoading = False, result = Some still, error = None\<rparr>\<rparr>))))
     = [''Style 10:00:00'']"
  by (simp add: handleImportStyle_def handleSaveStyle_def import_env_def library_def
      fileToGenerativePart_def generateReversePrompt_def call_and_parse_def parse_text_def
      still_def or_str_def at_def done_loading_def Let_def photo_def idle_def
      createPersistentThumbnail_def)

text \<open>
  C7, amended: when the storage write succeeds, the new entry is at the front of both the
  in-memory and the persisted collection, and its name is the result's title when that is
  non-empty. Without a title, an imported style is named after the file name up to its
  first dot when that is non-empty and \<open>New Style\<close> otherwise; a saved style is named
  \<open>Style\<close> followed by the local time, and the file name is not used.
\<close>

theorem auto_name_by_path:
  "(env_read env = Some u \<and> call_and_parse empty_director (env_reply env) = Inr r
      \<and> env_write_ok env \<longrightarrow>
      (\<exists>new. savedStyles (fst (handleImportStyle (Some f) env s)) = new # savedStyles s
         \<and> stored (fst (handleImportStyle (Some f) env s)) = Some (new # savedStyles s)
         \<and> name new =
             (if truthy (title r) then the (title r)
              else if takeWhile (\<lambda>x. x \<noteq> CHR ''.'') (fname f) \<noteq> []
                   then takeWhile (\<lambda>x. x \<noteq> CHR ''.'') (fname f)
              else ''New Style'')))
   \<and> (result (wp_generation s) = Some r
      \<and> (styleImage s \<noteq> None \<or> activeSavedStyle s \<noteq> None) \<and> env_write_ok env \<longrightarrow>
      (\<exists>new. savedStyles (fst (handleSaveStyle env s)) = new # savedStyles s
         \<and> stored (fst (handleSaveStyle env s)) = Some (new # savedStyles s)
         \<and> name new = (if truthy (title r) then the (title r) else ''Style '' @ env_time env)))"
proof -
  have imported: "env_read env = Some u \<and> call_and_parse empty_director (env_reply env) = Inr r
      \<and> env_write_ok env \<longrightarrow>
      (\<exists>new. savedStyles (fst (handleImportStyle (Some f) env s)) = new # savedStyles s
         \<and> stored (fst (handleImportStyle (Some f) env s)) = Some (new # savedStyles s)
         \<and> name new =
             (if truthy (title r) then the (title r)
              else if takeWhile (\<lambda>x. x \<noteq> CHR ''.'') (fname f) \<noteq> []
                   then takeWhile (\<lambda>x. x \<noteq> CHR ''.'') (fname f)
              else ''New Style''))"
    by (simp add: handleImportStyle_def fileToGenerativePart_def generateReversePrompt_def
        pass_through Let_def done_loading_def first_piece or_str_def truthy_def
        split: option.splits)
  have saved: "result (wp_generation s) = Some r
      \<and> (styleImage s \<noteq> None \<or> activeSavedStyle s \<noteq> None) \<and> env_write_ok env \<longrightarrow>
      (\<exists>new. savedStyles (fst (handleSaveStyle env s)) = new # savedStyles s
         \<and> stored (fst (handleSaveStyle env s)) = Some (new # savedStyles s)
         \<and> name new = (if truthy (title r) then the (title r) else ''Style '' @ env_time env))"
    by (auto simp: handleSaveStyle_def Let_def or_str_def truthy_def split: option.splits)
  from imported saved show ?thesis by blast
qed

theorem auto_name_by_path_witness:
  "map name (savedStyles (fst (handleImportStyle (Some photo_file) import_env library)))
     = [''Neon Dusk'']
   \<and> map name (the (stored (fst (handleImportStyle (Some photo_file) import_env library))))
     = [''Neon Dusk'']"
proof -
  have r: "env_read import_env = Some ''data:image/png;base64,BBBB''"
    and c: "call_and_parse empty_director (env_reply import_env) = Inr neon_dusk"
    and w: "env_write_ok import_env"
    by (simp_all add: import_env_def call_and_parse_def parse_text_def)
  have t: "truthy (title neon_dusk)" "the (title neon_dusk) = ''Neon Dusk''"
    by (simp_all add: neon_dusk_def truthy_def)
  from auto_name_by_path
         [of import_env "''data:image/png;base64,BBBB''" neon_dusk photo_file library] r c w
  obtain new where
    n: "savedStyles (fst (handleImportStyle (Some photo_file) import_env library))
          = new # savedStyles library"
       "stored (fst (handleImportStyle (Some photo_file) import_env library))
          = Some (new # savedStyles library)"
       "name new = (if truthy (title neon_dusk) then the (title neon_dusk)
                    else if takeWhile (\<lambda>x. x \<noteq> CHR ''.'') (fname photo_file) \<noteq> []
                         then takeWhile (\<lambda>x. x \<noteq> CHR ''.'') (fname photo_file)
                    else ''New Style'')"
    by blast
  have "savedStyles library = []" by (simp add: library_def)
  with n t show ?thesis by simp
qed

section \<open>C8: a failed storage write\<close>

text \<open>
  C8: when \<open>localStorage.setItem\<close> throws during a save or an import, the user is told
  (each path has its own alert; a save raises nothing else but the log of a thumbnail that
  could not be drawn), and neither the in-memory collection nor the stored one changes: a
  save leaves the whole state as it was. Whether or not the write succeeds,
  the new in-memory collection is computed from the in-memory one and never from what
  the storage holds.
\<close>

theorem storage_failure_is_reported_and_harmless:
  "(\<not> env_write_ok env \<longrightarrow>
     (result (wp_generation s) \<noteq> None
        \<and> (styleImage s \<noteq> None \<or> activeSavedStyle s \<noteq> None) \<longrightarrow>
        handleSaveStyle env s =
          (s, (if styleImage s \<noteq> None \<and> env_canvas env = None then [ConsoleError] else [])
              @ [Alert StorageFullAdvice]))
     \<and> (env_read env = Some u \<and> call_and_parse empty_director (env_reply env) = Inr r \<longrightarrow>
        Alert StorageFull \<in> set (snd (handleImportStyle (Some f) env s)))
     \<and> savedStyles (fst (handleSaveStyle env s)) = savedStyles s
     \<and> stored (fst (handleSaveStyle env s)) = stored s
     \<and> savedStyles (fst (handleImportStyle fo env s)) = savedStyles s
     \<and> stored (fst (handleImportStyle fo env s)) = stored s)
   \<and> savedStyles (fst (handleSaveStyle env (s\<lparr>stored := x\<rparr>)))
       = savedStyles (fst (handleSaveStyle env s))
   \<and> savedStyles (fst (handleImportStyle fo env (s\<lparr>stored := x\<rparr>)))
       = savedStyles (fst (handleImportStyle fo env s))"
proof -
  have failing: "(result (wp_generation s) \<noteq> None
        \<and> (styleImage s \<noteq> None \<or> activeSavedStyle s \<noteq> None) \<longrightarrow>
        handleSaveStyle env s =
          (s, (if styleImage s \<noteq> None \<and> env_canvas env = None then [ConsoleError] else [])
              @ [Alert StorageFullAdvice]))
     \<and> (env_read env = Some u \<and> call_and_parse empty_director (env_reply env) = Inr r \<longrightarrow>
        Alert StorageFull \<in> set (snd (handleImportStyle (Some f) env s)))
     \<and> savedStyles (fst (handleSaveStyle env s)) = savedStyles s
     \<and> stored (fst (handleSaveStyle env s)) = stored s
     \<and> savedStyles (fst (handleImportStyle fo env s)) = savedStyles s
     \<and> stored (fst (handleImportStyle fo env s)) = stored s"
    if w: "\<not> env_write_ok env"
  proof -
    have save_told: "handleSaveStyle env s =
          (s, (if styleImage s \<noteq> None \<and> env_canvas env = None then [ConsoleError] else [])
              @ [Alert StorageFullAdvice])"
      if "result (wp_generation s) \<noteq> None"
        "styleImage s \<noteq> None \<or> activeSavedStyle s \<noteq> None"
      using that w
      by (auto simp: handleSaveStyle_def Let_def createPersistentThumbnail_def
          split: option.splits)
    have import_told: "Alert StorageFull \<in> set (snd (handleImportStyle (Some f) env s))"
      if "env_read env = Some u" "call_and_parse empty_director (env_reply env) = Inr r"
      using that w
      by (simp add: handleImportStyle_def fileToGenerativePart_def generateReversePrompt_def
          pass_through Let_def)
    have save_same: "fst (handleSaveStyle env s) = s"
      using w by (auto simp: handleSaveStyle_def Let_def split: option.splits)
    have import_same: "savedStyles (fst (handleImportStyle fo env s)) = savedStyles s
       \<and> stored (fst (handleImportStyle fo env s)) = stored s"
      using w
      by (auto simp: handleImportStyle_def Let_def done_loading_def
          split: option.splits sum.splits prod.splits)
    from save_told import_told save_same import_same show ?thesis by simp
  qed
  have memory: "savedStyles (fst (handleSaveStyle env (s\<lparr>stored := x\<rparr>)))
       = savedStyles (fst (handleSaveStyle env s))
     \<and> savedStyles (fst (handleImportStyle fo env (s\<lparr>stored := x\<rparr>)))
       = savedStyles (fst (handleImportStyle fo env s))"
    by (auto simp: handleSaveStyle_def handleImportStyle_def Let_def done_loading_def
        split: option.splits sum.splits prod.splits)
  from failing memory show ?thesis by blast
qed

theorem storage_failure_is_reported_and_harmless_witness:
  "handleSaveStyle (import_env\<lparr>env_write_ok := False\<rparr>)
       (library\<lparr>styleImage := Some photo,
                wp_generation := \<lparr>isLoading = False, result = Some still, error = None\<rparr>\<rparr>)
     = (library\<lparr>styleImage := Some photo,
                 wp_generation := \<lparr>isLoading = False, result = Some still, error = None\<rparr>\<rparr>,
        [Alert StorageFullAdvice])
   \<and> savedStyles (fst (handleImportStyle (Some photo_file)
        (import_env\<lparr>env_write_ok := False\<rparr>) library)) = []"
  using storage_failure_is_reported_and_harmless
    [of "import_env\<lparr>env_write_ok := False\<rparr>"
        "library\<lparr>styleImage := Some photo,
                 wp_generation := \<lparr>isLoading = False, result = Some still, error = None\<rparr>\<rparr>"]
    storage_failure_is_reported_and_harmless
    [of "import_env\<lparr>env_write_ok := False\<rparr>" library _ _ _ "Some photo_file"]
  by (simp add: import_env_def library_def)

section \<open>C9: refreshing the market insights\<close>

text \<open>
  What \<open>fetchInsights\<close> does, by the outcome of \<open>getMarketInsights\<close>. When the gateway
  returns, the snapshot is replaced by what it returned and, when that has at least one
  upcoming event, the first is selected, whatever was selected before; with an empty list
  of events, or none, the selection stays. When the gateway fails, snapshot and selection
  stay as they were and the failure is only logged. No alert is raised and the error shown
  to the user is not touched.
\<close>

lemma insight_refresh_by_gateway_outcome:
  "(getMarketInsights rp = Inr data \<longrightarrow>
      insights (fst (fetchInsights rp s)) = Some data
      \<and> (\<forall>ev evs. upcomingEvents data = Some (ev # evs) \<longrightarrow>
            selectedEvent (fst (fetchInsights rp s)) = Some ev)
      \<and> (upcomingEvents data = Some [] \<or> upcomingEvents data = None \<longrightarrow>
            selectedEvent (fst (fetchInsights rp s)) = selectedEvent s))
   \<and> (getMarketInsights rp = Inl e \<longrightarrow>
      insights (fst (fetchInsights rp s)) = insights s
      \<and> selectedEvent (fst (fetchInsights rp s)) = selectedEvent s
      \<and> snd (fetchInsights rp s) = [Dispatch CallMarketInsights, ConsoleError])
   \<and> seo_error (fst (fetchInsights rp s)) = seo_error s
   \<and> \<not> isInsightLoading (fst (fetchInsights rp s))
   \<and> (\<forall>n. Alert n \<notin> set (snd (fetchInsights rp s)))"
  by (auto simp: fetchInsights_def Let_def split: sum.splits option.splits list.splits)

text \<open>
  C9 does not hold of the code. When the response carries no text, \<open>getMarketInsights\<close>
  returns the empty object; \<open>fetchInsights\<close> stores it as the snapshot and then throws
  on reading the length of its missing \<open>upcomingEvents\<close>, so the refresh ends in its
  \<open>catch\<close>, with the same log as a failed call, and the prior snapshot is gone. The
  snapshot left behind has no \<open>trendingThemes\<close> either, which the page maps over as soon
  as a snapshot is present. A call that throws, by contrast, leaves the snapshot alone.
\<close>

theorem textless_reply_overwrites_snapshot:
  "fetchInsights (Responded NoText)
       \<lparr>insights = Some snapshot, isInsightLoading = False, selectedEvent = Some spring,
        seo_error = None\<rparr>
     = (\<lparr>insights = Some empty_insight, isInsightLoading = False, selectedEvent = Some spring,
         seo_error = None\<rparr>,
        [Dispatch CallMarketInsights, ConsoleError])
   \<and> fetchInsights (Threw \<lparr>message = None\<rparr>)
       \<lparr>insights = Some snapshot, isInsightLoading = False, selectedEvent = Some spring,
        seo_error = None\<rparr>
     = (\<lparr>insights = Some snapshot, isInsightLoading = False, selectedEvent = Some spring,
         seo_error = None\<rparr>,
        [Dispatch CallMarketInsights, ConsoleError])
   \<and> trendingThemes empty_insight = None \<and> upcomingEvents empty_insight = None"
  by (simp add: fetchInsights_def getMarketInsights_def call_and_parse_def parse_text_def
      empty_insight_def)

section \<open>Facts about the workflow\<close>

lemma inv_initial: "inv initialApp"
  by (simp add: inv_def initialApp_def initialDisplay_def idle_def mounted_def)

lemma refine_keeps:
  "handleRefineSubmit m am st d rp = (d', upd, effs) \<Longrightarrow>
   \<not> isRefining d \<Longrightarrow>
   phase d' = phase d \<and> generatedImage d' = generatedImage d \<and> \<not> isRefining d'
   \<and> (activeTab d' = activeTab d \<or> activeTab d' = TabNone)"
  by (auto simp: handleRefineSubmit_def split: option.splits if_splits sum.splits)

lemma advance_keeps:
  "handleVideoPromptSubmit m d rp = (d', upd, effs) \<Longrightarrow>
   \<not> isRefining d \<Longrightarrow>
   generatedImage d' = generatedImage d \<and> \<not> isRefining d'
   \<and> (phase d' = phase d \<and> activeTab d' = activeTab d
       \<or> phase d' = VideoPrompt \<and> activeTab d' = TabNone \<and> generatedImage d \<noteq> None)"
  by (auto simp: handleVideoPromptSubmit_def split: option.splits if_splits sum.splits)

lemma inv_step: "inv s \<Longrightarrow> enabled s e \<Longrightarrow> inv (fst (fire e s))"
proof (cases e)
  case (SetAppMode m)
  assume "inv s" then show ?thesis using SetAppMode
    by (auto simp: inv_def mounted_def initialDisplay_def)
next
  case (FileSelect fo url rd)
  assume "inv s" "enabled s e" then show ?thesis using FileSelect
    by (auto simp: inv_def mounted_def handleFileSelect_def idle_def initialDisplay_def
        split: prod.splits option.splits)
next
  case ClickReset
  assume "inv s" then show ?thesis using ClickReset
    by (simp add: inv_def mounted_def handleReset_def idle_def initialDisplay_def)
next
  case (ClickGenerate rp)
  assume "inv s" "enabled s e" then show ?thesis using ClickGenerate
    by (auto simp: inv_def mounted_def handleGenerate_def split: option.splits sum.splits)
next
  case (ClickRetry rp)
  assume "inv s" "enabled s e" then show ?thesis using ClickRetry
    by (auto simp: inv_def mounted_def handleGenerate_def split: option.splits sum.splits)
next
  case ToggleRefineTab
  assume "inv s" "enabled s e" then show ?thesis using ToggleRefineTab
    by (auto simp: inv_def mounted_def panel_def set_display_def)
next
  case ToggleImageToVideoTab
  assume "inv s" "enabled s e" then show ?thesis using ToggleImageToVideoTab
    by (auto simp: inv_def mounted_def panel_def set_display_def)
next
  case (TypeFeedback t)
  assume "inv s" "enabled s e" then show ?thesis using TypeFeedback
    by (auto simp: inv_def mounted_def panel_def set_display_def)
next
  case (UploadBadResultImage fo url rd)
  assume "inv s" "enabled s e" then show ?thesis using UploadBadResultImage
    by (auto simp: inv_def mounted_def panel_def set_display_def
        split: prod.splits option.splits)
next
  case ClearBadResultImage
  assume "inv s" "enabled s e" then show ?thesis using ClearBadResultImage
    by (auto simp: inv_def mounted_def panel_def set_display_def)
next
  case (UploadBadResultVideo fo url rd)
  assume "inv s" "enabled s e" then show ?thesis using UploadBadResultVideo
    by (auto simp: inv_def mounted_def panel_def set_display_def
        split: prod.splits option.splits)
next
  case ClearBadResultVideo
  assume "inv s" "enabled s e" then show ?thesis using ClearBadResultVideo
    by (auto simp: inv_def mounted_def panel_def set_display_def)
next
  case (UploadGeneratedImage fo url rd)
  assume "inv s" "enabled s e" then show ?thesis using UploadGeneratedImage
    by (auto simp: inv_def mounted_def panel_def set_display_def
        split: prod.splits option.splits)
next
  case ClearGeneratedImage
  assume "inv s" "enabled s e" then show ?thesis using ClearGeneratedImage
    by (auto simp: inv_def mounted_def panel_def set_display_def)
next
  case (ClickRefineSubmit rp)
  assume i: "inv s" and en: "enabled s e"
  from en ClickRefineSubmit obtain m where m: "media s = Some m"
    by (auto simp: panel_def mounted_def)
  obtain d' upd effs where
    h: "handleRefineSubmit m None (generationState s) (display s) rp = (d', upd, effs)"
    by (cases "handleRefineSubmit m None (generationState s) (display s) rp") auto
  from i have nr: "\<not> isRefining (display s)" by (simp add: inv_def)
  from refine_keeps [OF h nr] i en ClickRefineSubmit m h show ?thesis
    by (cases upd) (auto simp: inv_def mounted_def panel_def in_app_def handleUpdateResult_def)
next
  case (ClickVideoPromptSubmit rp)
  assume i: "inv s" and en: "enabled s e"
  from en ClickVideoPromptSubmit obtain m where m: "media s = Some m"
    by (auto simp: panel_def mounted_def)
  obtain d' upd effs where
    h: "handleVideoPromptSubmit m (display s) rp = (d', upd, effs)"
    by (cases "handleVideoPromptSubmit m (display s) rp") auto
  from i have nr: "\<not> isRefining (display s)" by (simp add: inv_def)
  from advance_keeps [OF h nr] i en ClickVideoPromptSubmit m h show ?thesis
    by (cases upd) (auto simp: inv_def mounted_def panel_def in_app_def handleUpdateResult_def)
qed

lemma reachable_inv: "reachable s \<Longrightarrow> inv s"
  by (induction rule: reachable.induct) (auto intro: inv_initial inv_step)

lemma reachable_step: "reachable s \<Longrightarrow> reachable (step s e)"
  by (auto simp: step_def intro: reachable.after)

lemma reachable_foldl: "reachable s \<Longrightarrow> reachable (foldl step s es)"
  by (induction es arbitrary: s) (auto intro: reachable_step)

lemma reachable_run: "reachable (run es)"
  by (simp add: run_def reachable_foldl reachable.start)

lemma blank_trim: "trim t = [] \<longleftrightarrow> list_all is_space t"
proof -
  have "dropWhile is_space t = [] \<longleftrightarrow> list_all is_space t"
    by (simp add: list_all_iff)
  moreover have "trim t = [] \<longleftrightarrow> dropWhile is_space t = []"
  proof
    assume a: "trim t = []"
    show "dropWhile is_space t = []"
    proof (rule ccontr)
      assume n: "dropWhile is_space t \<noteq> []"
      then have "\<not> is_space (hd (dropWhile is_space t))" by (rule hd_dropWhile)
      moreover have "hd (dropWhile is_space t) \<in> set (rev (dropWhile is_space t))"
        using n by simp
      ultimately have "dropWhile is_space (rev (dropWhile is_space t)) \<noteq> []"
        by auto
      with a show False by (simp add: trim_def)
    qed
  next
    assume e: "dropWhile is_space t = []"
    show "trim t = []" unfolding trim_def e by simp
  qed
  ultimately show ?thesis by simp
qed

lemma not_image: "(p \<noteq> ImagePrompt) = (p = VideoPrompt)"
  by (cases p) auto

lemmas machine_defs =
  run_def step_def initialApp_def idle_def initialDisplay_def mounted_def panel_def
  refine_disabled_def hasBadMedia_def in_app_def set_display_def
  handleFileChange_def handleFileSelect_def handleReset_def handleGenerate_def
  handleUpdateResult_def handleMediaUpload_def handleRefineSubmit_def
  handleVideoPromptSubmit_def fileToGenerativePart_def startsWith_def at_def
  director_recipes call_and_parse_def parse_text_def

lemma run_scenario_A: "run scenario_A =
  \<lparr>appMode = Director, media = Some photo,
   generationState = \<lparr>isLoading = False, result = Some still, error = None\<rparr>,
   display = initialDisplay\<rparr>"
  by (simp add: scenario_A_def machine_defs photo_file_def photo_def)

lemma run_scenario_B: "run scenario_B =
  \<lparr>appMode = Director, media = Some photo,
   generationState = \<lparr>isLoading = False, result = Some still, error = None\<rparr>,
   display = initialDisplay\<lparr>activeTab := TabRefine, feedbackText := ''make it brighter''\<rparr>\<rparr>"
  by (simp add: scenario_B_def scenario_A_def machine_defs photo_file_def photo_def)

lemma run_to_video: "run to_video =
  \<lparr>appMode = Director, media = Some photo,
   generationState = \<lparr>isLoading = False, result = Some motion, error = None\<rparr>,
   display = initialDisplay\<lparr>phase := VideoPrompt,
     generatedImage := Some (photo\<lparr>previewUrl := Some ''blob:3''\<rparr>)\<rparr>\<rparr>"
  by (simp add: to_video_def scenario_A_def machine_defs photo_file_def photo_def)

section \<open>C10: the confirmed image in the video phase\<close>

text \<open>
  C10: in every reachable state of the workflow, the video phase implies that the confirmed
  intermediate image is present. So a refine submit in the video phase that passes the
  validation never takes the missing-asset branch: it dispatches the video refine call
  with that image.
\<close>

theorem video_phase_has_confirmed_image:
  assumes "reachable s" and "phase (display s) = VideoPrompt"
  shows "(\<exists>g. generatedImage (display s) = Some g)
    \<and> (\<forall>m prev rp. media s = Some m \<and> result (generationState s) = Some prev
          \<and> \<not> (trim (feedbackText (display s)) = [] \<and> badResultVideo (display s) = None) \<longrightarrow>
          (\<exists>g. Dispatch (CallRefineVideoPrompt m g prev (feedbackText (display s))
                   (badResultVideo (display s)))
                 \<in> set (snd (snd (handleRefineSubmit m None (generationState s)
                                     (display s) rp)))))"
proof -
  from reachable_inv [OF assms(1)] assms(2)
  obtain g where g: "generatedImage (display s) = Some g"
    by (auto simp: inv_def)
  show ?thesis
    using g assms(2)
    by (auto simp: handleRefineSubmit_def hasBadMedia_def split: sum.splits)
qed

theorem video_phase_has_confirmed_image_witness:
  "phase (display (run to_video)) = VideoPrompt
   \<and> generatedImage (display (run to_video)) = Some (photo\<lparr>previewUrl := Some ''blob:3''\<rparr>)"
proof -
  have p: "phase (display (run to_video)) = VideoPrompt"
    by (simp add: run_to_video initialDisplay_def)
  from video_phase_has_confirmed_image [OF reachable_run p]
  have "\<exists>g. generatedImage (display (run to_video)) = Some g"
    by blast
  with p show ?thesis by (simp add: run_to_video initialDisplay_def)
qed

section \<open>C4: when a refine submit is rejected\<close>

text \<open>
  C4: in a reachable state in which the action panel is rendered, a refine submit
  dispatches no gateway call and raises the validation alert exactly when the feedback
  text consists of white space only (or is empty) and no bad-result media of the current
  phase's kind is attached (the image in the image phase, the video in the video phase).
  In every other case it dispatches the refine call of the current phase, with the
  current result, the feedback text and the attached media of that kind.
\<close>

theorem refine_rejected_iff_nothing_to_go_on:
  assumes "reachable s" and "panel s" and "media s = Some m"
  shows "(((\<forall>c. Dispatch c \<notin> set (snd (fire (ClickRefineSubmit rp) s)))
           \<and> Alert RefineNeedsInput \<in> set (snd (fire (ClickRefineSubmit rp) s)))
          \<longleftrightarrow> (list_all is_space (feedbackText (display s))
                \<and> (if phase (display s) = ImagePrompt then badResultImage (display s)
                    else badResultVideo (display s)) = None))
    \<and> (\<not> (list_all is_space (feedbackText (display s))
            \<and> (if phase (display s) = ImagePrompt then badResultImage (display s)
                else badResultVideo (display s)) = None) \<longrightarrow>
         (\<exists>prev. result (generationState s) = Some prev
            \<and> (if phase (display s) = ImagePrompt
                then Dispatch (CallRefinePrompt m prev (feedbackText (display s))
                       (badResultImage (display s)) None)
                     \<in> set (snd (fire (ClickRefineSubmit rp) s))
                else \<exists>g. generatedImage (display s) = Some g
                       \<and> Dispatch (CallRefineVideoPrompt m g prev (feedbackText (display s))
                            (badResultVideo (display s)))
                          \<in> set (snd (fire (ClickRefineSubmit rp) s)))))"
proof -
  from assms(2) obtain prev where prev: "result (generationState s) = Some prev"
    by (auto simp: panel_def)
  have img: "phase (display s) \<noteq> ImagePrompt \<Longrightarrow> \<exists>g. generatedImage (display s) = Some g"
    using reachable_inv [OF assms(1)] by (cases "phase (display s)") (auto simp: inv_def)
  show ?thesis
  proof (cases "phase (display s) = ImagePrompt")
    case True
    then show ?thesis using prev assms(3)
      by (auto simp: in_app_def handleRefineSubmit_def hasBadMedia_def blank_trim
          split: sum.splits)
  next
    case False
    with img obtain g where "generatedImage (display s) = Some g" by blast
    then show ?thesis using prev assms(3) False
      by (auto simp: in_app_def handleRefineSubmit_def hasBadMedia_def blank_trim
          split: sum.splits)
  qed
qed

theorem refine_rejected_iff_nothing_to_go_on_witness:
  "Alert RefineNeedsInput \<in> set (snd (fire (ClickRefineSubmit (Responded (Parsed motion)))
      (run scenario_A)))
   \<and> Dispatch (CallRefinePrompt photo still ''make it brighter'' None None)
      \<in> set (snd (fire (ClickRefineSubmit (Responded (Parsed motion))) (run scenario_B)))"
proof -
  have a: "panel (run scenario_A)" "media (run scenario_A) = Some photo"
    by (simp_all add: run_scenario_A panel_def mounted_def initialDisplay_def)
  have b: "panel (run scenario_B)" "media (run scenario_B) = Some photo"
    by (simp_all add: run_scenario_B panel_def mounted_def initialDisplay_def)
  have sp: "\<not> list_all is_space ''make it brighter''"
    by (simp add: is_space_def)
  from refine_rejected_iff_nothing_to_go_on
         [OF reachable_run a, of "Responded (Parsed motion)"]
  have "Alert RefineNeedsInput \<in> set (snd (fire (ClickRefineSubmit (Responded (Parsed motion)))
      (run scenario_A)))"
    by (simp add: run_scenario_A initialDisplay_def)
  moreover
  from refine_rejected_iff_nothing_to_go_on
         [OF reachable_run b, of "Responded (Parsed motion)"] sp
  have "Dispatch (CallRefinePrompt photo still ''make it brighter'' None None)
      \<in> set (snd (fire (ClickRefineSubmit (Responded (Parsed motion))) (run scenario_B)))"
    by (simp add: run_scenario_B initialDisplay_def)
  ultimately show ?thesis by simp
qed

section \<open>C5: the direction of the phase\<close>

text \<open>
  Among the events that keep \<open>ResultDisplay\<close> on the page, the only one that changes the
  phase is a successful advance, from the image phase to the video phase, with a confirmed
  image attached.
\<close>

lemma phase_only_advances:
  assumes "enabled s e" and "e \<noteq> ClickReset" and "\<forall>m. e \<noteq> SetAppMode m"
  shows "phase (display (fst (fire e s))) = phase (display s)
    \<or> (phase (display s) = ImagePrompt \<and> phase (display (fst (fire e s))) = VideoPrompt
        \<and> generatedImage (display s) \<noteq> None \<and> (\<exists>rp. e = ClickVideoPromptSubmit rp))"
  using assms
  by (cases e)
    (auto simp: handleFileSelect_def handleGenerate_def set_display_def in_app_def
      handleRefineSubmit_def handleVideoPromptSubmit_def handleUpdateResult_def not_image
      split: prod.splits option.splits sum.splits if_splits)

text \<open>
  C5 does not hold of the code. After the workflow has reached the video phase, switching
  the application mode to \<open>stocksensei\<close> and back to \<open>director\<close> takes \<open>ResultDisplay\<close>
  off the page and puts a fresh one on it: the phase is the image phase again, while the
  media and the active result (the motion prompt) are still those of the video phase. No
  reset has taken place.
\<close>

theorem mode_switch_returns_to_image_phase:
  "phase (display (run to_video)) = VideoPrompt
   \<and> run (to_video @ [SetAppMode Stocksensei, SetAppMode Director]) =
       \<lparr>appMode = Director, media = Some photo,
        generationState = \<lparr>isLoading = False, result = Some motion, error = None\<rparr>,
        display = initialDisplay\<rparr>
   \<and> phase initialDisplay = ImagePrompt"
proof -
  have "run (to_video @ [SetAppMode Stocksensei, SetAppMode Director])
      = step (step (run to_video) (SetAppMode Stocksensei)) (SetAppMode Director)"
    by (simp add: run_def)
  then show ?thesis
    by (simp add: run_to_video step_def initialDisplay_def)
qed

section \<open>C1: the active result after a failed call\<close>

text \<open>
  With the handlers run one at a time, a stored result never stands beside an error
  message, so the retry link is offered only while no result is stored, as the generate
  button is; and a failing refine or advance only alerts. Every failing call then leaves
  the active result as it was.
\<close>

lemma result_excludes_error_step:
  assumes "result (generationState s) \<noteq> None \<longrightarrow> error (generationState s) = None"
    and "enabled s e"
  shows "result (generationState (fst (fire e s))) \<noteq> None \<longrightarrow>
         error (generationState (fst (fire e s))) = None"
  using assms
  by (cases e)
    (auto simp: handleFileSelect_def handleReset_def idle_def handleGenerate_def
      set_display_def in_app_def handleRefineSubmit_def handleVideoPromptSubmit_def
      handleUpdateResult_def panel_def
      split: prod.splits option.splits sum.splits if_splits)

lemma result_excludes_error:
  "reachable s \<Longrightarrow> result (generationState s) \<noteq> None \<Longrightarrow> error (generationState s) = None"
proof (induction rule: reachable.induct)
  case start
  then show ?case by (simp add: initialApp_def idle_def)
next
  case (after s e)
  from result_excludes_error_step [OF _ after.hyps(2)] after.IH after.prems
  show ?case by blast
qed

lemma failure_keeps_result_one_at_a_time:
  assumes "reachable s" and "enabled s e"
    and "e = ClickGenerate rp \<or> e = ClickRetry rp \<or> e = ClickRefineSubmit rp
         \<or> e = ClickVideoPromptSubmit rp"
    and "call_and_parse empty_director rp = Inl err"
  shows "result (generationState (fst (fire e s))) = result (generationState s)"
proof -
  from assms(3) consider "e = ClickGenerate rp" | "e = ClickRetry rp"
    | "e = ClickRefineSubmit rp" | "e = ClickVideoPromptSubmit rp" by blast
  then show ?thesis
  proof cases
    case 1
    with assms(2,4) show ?thesis
      by (auto simp: handleGenerate_def generateReversePrompt_def pass_through
          split: option.splits)
  next
    case 2
    with assms(2) have "error (generationState s) \<noteq> None" by simp
    with result_excludes_error [OF assms(1)] have "result (generationState s) = None" by blast
    with 2 assms(4) show ?thesis
      by (auto simp: handleGenerate_def generateReversePrompt_def pass_through
          split: option.splits)
  next
    case 3
    with assms(4) show ?thesis
      by (auto simp: in_app_def handleRefineSubmit_def director_recipes pass_through
          split: option.splits)
  next
    case 4
    with assms(4) show ?thesis
      by (auto simp: in_app_def handleVideoPromptSubmit_def director_recipes pass_through
          split: option.splits)
  qed
qed

text \<open>The two halves of \<open>handleGenerate\<close>, run back to back, are the handler.\<close>

lemma generate_split:
  "fst (handleGenerate rp s) =
     (case media s of None \<Rightarrow> s | Some m \<Rightarrow> generate_settle m rp (fst (generate_begin s)))
   \<and> snd (handleGenerate rp s) = snd (generate_begin s)"
  by (simp add: handleGenerate_def generate_begin_def generate_settle_def
      split: option.splits sum.splits)

lemma live_run_overlap:
  "live_run overlap =
     (\<lparr>appMode = Director, media = Some (photo\<lparr>previewUrl := Some ''blob:4''\<rparr>),
       generationState = \<lparr>isLoading = False, result = Some still, error = None\<rparr>,
       display = initialDisplay\<rparr>,
      [photo])"
  by (simp add: live_run_def overlap_def machine_defs generate_begin_def generate_settle_def
      photo_file_def photo_def)

text \<open>
  C1 does not hold of the code. The reset control is not held back by the loading flag, so
  two generation calls can be outstanding at once: the user starts a generation, resets
  while it is outstanding, selects a file again and starts a second generation. The second
  call succeeds and its result is stored. When the first call then fails, the \<open>catch\<close>
  of \<open>handleGenerate\<close> writes \<open>result: null\<close>: the stored result is cleared by a failed
  call.
\<close>

theorem stale_failure_clears_result:
  "generationState (fst (live_run overlap))
     = \<lparr>isLoading = False, result = Some still, error = None\<rparr>
   \<and> snd (live_run overlap) = [photo]
   \<and> live_run (overlap @ [Settle 0 (Threw \<lparr>message = None\<rparr>)]) =
       (\<lparr>appMode = Director, media = Some (photo\<lparr>previewUrl := Some ''blob:4''\<rparr>),
         generationState = \<lparr>isLoading = False, result = None,
           error = Some ''Something went wrong during generation.''\<rparr>,
         display = initialDisplay\<rparr>,
        [])"
proof -
  have "live_run (overlap @ [Settle 0 (Threw \<lparr>message = None\<rparr>)])
      = live_step (live_run overlap) (Settle 0 (Threw \<lparr>message = None\<rparr>))"
    by (simp add: live_run_def)
  then show ?thesis
    by (simp add: live_run_overlap generate_settle_def generateReversePrompt_def
        call_and_parse_def or_str_def)
qed

end
